theory Spec2Isabelle
  imports Complex_Main
begin

section \<open>The goal-description analysis pipeline of agents/nlp\_agent.py\<close>

text \<open>
  A shallow embedding of the four extraction tools of \<^verbatim>\<open>agents/nlp_agent.py\<close>
  (\<^verbatim>\<open>IntentExtractionTool\<close>, \<^verbatim>\<open>TimeframeParsingTool\<close>,
  \<^verbatim>\<open>MetricsIdentificationTool\<close>, \<^verbatim>\<open>ConstraintExtractionTool\<close>) and of the
  aggregating \<^verbatim>\<open>NLPAgent\<close>.

  Conventions of the model.
  \<^item> A description is a \<open>string\<close>; its characters stand for ASCII code points. Python's
    \<^verbatim>\<open>str.lower\<close>, \<^verbatim>\<open>str.split\<close>, \<^verbatim>\<open>str.strip\<close> and the classes
    \<^verbatim>\<open>\d\<close>, \<^verbatim>\<open>\s\<close>, \<^verbatim>\<open>\w\<close> of \<^verbatim>\<open>re\<close> are modelled on ASCII.
  \<^item> Python's \<^verbatim>\<open>float\<close> is idealised as \<open>rat\<close>: sums, quotients and comparisons are
    exact.
  \<^item> An exception is a value \<open>Inl e\<close> of a sum type; \<^verbatim>\<open>try ... except Exception\<close>
    is a case distinction on it.
  \<^item> \<^verbatim>\<open>datetime.now()\<close> reads a clock \<open>clk\<close>: \<open>clk i\<close> is the value of the
    \<open>i\<close>-th reading made by one call of a tool.
  \<^item> An f-string is kept as the list of its parts (\<open>ftext\<close>); numbers and error messages
    inside it are not rendered to characters.
\<close>

subsection \<open>Strings\<close>

definition is_space :: "char \<Rightarrow> bool" where
  "is_space c = (c \<in> set [CHR 0x09, CHR 0x0A, CHR 0x0B, CHR 0x0C, CHR 0x0D,
                            CHR 0x1C, CHR 0x1D, CHR 0x1E, CHR 0x1F, CHR 0x20])"

definition is_digit :: "char \<Rightarrow> bool" where
  "is_digit c = (c \<in> set ''0123456789'')"

definition is_upper :: "char \<Rightarrow> bool" where
  "is_upper c = (c \<in> set ''ABCDEFGHIJKLMNOPQRSTUVWXYZ'')"

definition is_lower :: "char \<Rightarrow> bool" where
  "is_lower c = (c \<in> set ''abcdefghijklmnopqrstuvwxyz'')"

definition is_word :: "char \<Rightarrow> bool" where
  "is_word c = (is_lower c \<or> is_upper c \<or> is_digit c \<or> c = CHR ''_'')"

definition lower_char :: "char \<Rightarrow> char" where
  "lower_char c =
     (case map_of (zip ''ABCDEFGHIJKLMNOPQRSTUVWXYZ'' ''abcdefghijklmnopqrstuvwxyz'') c of
        Some l \<Rightarrow> l
      | None \<Rightarrow> c)"

text \<open>\<^verbatim>\<open>s.lower()\<close>\<close>

definition lower :: "string \<Rightarrow> string" where
  "lower s = map lower_char s"

text \<open>\<^verbatim>\<open>s.strip()\<close>\<close>

definition strip :: "string \<Rightarrow> string" where
  "strip s = rev (dropWhile is_space (rev (dropWhile is_space s)))"

text \<open>\<^verbatim>\<open>s.split()\<close>: the maximal runs of non-whitespace characters; \<open>cur\<close> is the run
  being read.\<close>

fun split_acc :: "string \<Rightarrow> string \<Rightarrow> string list" where
  "split_acc cur [] = (if cur = [] then [] else [cur])"
| "split_acc cur (c # cs) =
     (if is_space c then (if cur = [] then split_acc [] cs else cur # split_acc [] cs)
      else split_acc (cur @ [c]) cs)"

definition split :: "string \<Rightarrow> string list" where
  "split s = split_acc [] s"

text \<open>\<^verbatim>\<open>s.split(sep)\<close> for a one-character separator: empty fields are kept.\<close>

fun split_on_acc :: "char \<Rightarrow> string \<Rightarrow> string \<Rightarrow> string list" where
  "split_on_acc sep cur [] = [cur]"
| "split_on_acc sep cur (c # cs) =
     (if c = sep then cur # split_on_acc sep [] cs else split_on_acc sep (cur @ [c]) cs)"

definition split_on :: "char \<Rightarrow> string \<Rightarrow> string list" where
  "split_on sep s = split_on_acc sep [] s"

text \<open>\<^verbatim>\<open>sep.join(xs)\<close>\<close>

fun join :: "string \<Rightarrow> string list \<Rightarrow> string" where
  "join sep [] = []"
| "join sep [x] = x"
| "join sep (x # y # ys) = x @ sep @ join sep (y # ys)"

definition startswith :: "string \<Rightarrow> string \<Rightarrow> bool" where
  "startswith s pre = (take (length pre) s = pre)"

definition endswith :: "string \<Rightarrow> string \<Rightarrow> bool" where
  "endswith s suf = (length suf \<le> length s \<and> drop (length s - length suf) s = suf)"

text \<open>\<^verbatim>\<open>k in s\<close> on strings: \<open>k\<close> occurs in \<open>s\<close> as a contiguous substring.\<close>

fun contains :: "string \<Rightarrow> string \<Rightarrow> bool" where
  "contains [] k = (k = [])"
| "contains (c # cs) k = (startswith (c # cs) k \<or> contains cs k)"

text \<open>\<^verbatim>\<open>any(word in s for word in words)\<close>\<close>

definition any_in :: "string list \<Rightarrow> string \<Rightarrow> bool" where
  "any_in ws s = list_ex (\<lambda>w. contains s w) ws"

subsection \<open>Exceptions, numbers and formatted text\<close>

datatype error = ValueError | IndexError | OverflowError

datatype part = S string | E error | F rat | N int | D "int \<times> int \<times> int \<times> nat"

type_synonym ftext = "part list"

definition digit_val :: "char \<Rightarrow> int" where
  "digit_val c =
     (case map_of (zip ''0123456789'' [0, 1, 2, 3, 4, 5, 6, 7, 8, 9]) c of
        Some v \<Rightarrow> v
      | None \<Rightarrow> 0)"

definition digits_val :: "string \<Rightarrow> int" where
  "digits_val s = foldl (\<lambda>a c. 10 * a + digit_val c) 0 s"

text \<open>\<^verbatim>\<open>int(s)\<close> on the strings the patterns can capture: a non-empty run of decimal
  digits. Any other string is a \<^verbatim>\<open>ValueError\<close> in the model.\<close>

definition py_int :: "string \<Rightarrow> error + int" where
  "py_int s = (if s \<noteq> [] \<and> list_all is_digit s then Inr (digits_val s) else Inl ValueError)"

text \<open>\<^verbatim>\<open>float(s)\<close> on the strings the patterns can capture: digits, optionally followed
  by a point and digits. Any other string is a \<^verbatim>\<open>ValueError\<close> in the model.\<close>

definition py_float :: "string \<Rightarrow> error + rat" where
  "py_float s =
     (let ip = takeWhile is_digit s; rest = dropWhile is_digit s in
      if ip = [] then Inl ValueError
      else if rest = [] then Inr (of_int (digits_val ip))
      else if hd rest = CHR ''.'' \<and> tl rest \<noteq> [] \<and> list_all is_digit (tl rest)
        then Inr (of_int (digits_val ip) + of_int (digits_val (tl rest)) / 10 ^ length (tl rest))
      else Inl ValueError)"

definition ebind :: "error + 'a \<Rightarrow> ('a \<Rightarrow> error + 'b) \<Rightarrow> error + 'b" where
  "ebind m f = (case m of Inl e \<Rightarrow> Inl e | Inr x \<Rightarrow> f x)"

subsection \<open>Regular expressions\<close>

text \<open>
  The fragment of Python's \<^verbatim>\<open>re\<close> that the patterns of the program use, with the
  backtracking semantics of the library: alternatives are tried left to right, a greedy
  repetition takes as much as it can and gives back one character at a time, a lazy one
  takes as little as it can. Every repetition of the program's patterns ranges over a
  single character class, so \<open>Rep\<close> repeats a class; \<open>Opt\<close> is the greedy \<^verbatim>\<open>?\<close>.
\<close>

datatype cc =
    Ch char       \<comment> \<open>a literal character\<close>
  | Digit         \<comment> \<open>\<^verbatim>\<open>\d\<close>\<close>
  | Space         \<comment> \<open>\<^verbatim>\<open>\s\<close>\<close>
  | Word          \<comment> \<open>\<^verbatim>\<open>\w\<close>\<close>
  | Dot           \<comment> \<open>\<^verbatim>\<open>.\<close>: any character but a newline\<close>
  | Not char      \<comment> \<open>\<^verbatim>\<open>[^c]\<close>\<close>

fun cc_ok :: "cc \<Rightarrow> char \<Rightarrow> bool" where
  "cc_ok (Ch a) c = (c = a)"
| "cc_ok Digit c = is_digit c"
| "cc_ok Space c = is_space c"
| "cc_ok Word c = is_word c"
| "cc_ok Dot c = (c \<noteq> CHR 0x0A)"
| "cc_ok (Not a) c = (c \<noteq> a)"

datatype re =
    Sym cc
  | Emp
  | Cat re re
  | Alt re re
  | Opt re
  | Rep bool nat "nat option" cc   \<comment> \<open>greedy?, least count, greatest count, class\<close>
  | Grp nat re                     \<comment> \<open>capturing group number \<open>n\<close>\<close>
  | Bnd                            \<comment> \<open>\<^verbatim>\<open>\b\<close>\<close>
  | Eos                            \<comment> \<open>\<^verbatim>\<open>$\<close>\<close>

text \<open>A matcher state: the character before the position (for \<^verbatim>\<open>\b\<close>), the rest of
  the subject, and the groups captured so far, latest first.\<close>

type_synonym mstate = "char option \<times> string \<times> (nat \<times> string) list"

fun dec :: "nat option \<Rightarrow> nat option" where
  "dec None = None"
| "dec (Some n) = Some (n - 1)"

fun rep_greedy :: "cc \<Rightarrow> nat \<Rightarrow> nat option \<Rightarrow> (mstate \<Rightarrow> mstate option) \<Rightarrow>
    char option \<Rightarrow> string \<Rightarrow> (nat \<times> string) list \<Rightarrow> mstate option" where
  "rep_greedy c lo hi k p [] cs = (if lo = 0 then k (p, [], cs) else None)"
| "rep_greedy c lo hi k p (x # xs) cs =
     (if cc_ok c x \<and> hi \<noteq> Some 0 then
        (case rep_greedy c (lo - 1) (dec hi) k (Some x) xs cs of
           Some r \<Rightarrow> Some r
         | None \<Rightarrow> if lo = 0 then k (p, x # xs, cs) else None)
      else if lo = 0 then k (p, x # xs, cs) else None)"

fun rep_lazy :: "cc \<Rightarrow> nat \<Rightarrow> nat option \<Rightarrow> (mstate \<Rightarrow> mstate option) \<Rightarrow>
    char option \<Rightarrow> string \<Rightarrow> (nat \<times> string) list \<Rightarrow> mstate option" where
  "rep_lazy c lo hi k p [] cs = (if lo = 0 then k (p, [], cs) else None)"
| "rep_lazy c lo hi k p (x # xs) cs =
     (if lo = 0 then
        (case k (p, x # xs, cs) of
           Some r \<Rightarrow> Some r
         | None \<Rightarrow> if cc_ok c x \<and> hi \<noteq> Some 0
                   then rep_lazy c 0 (dec hi) k (Some x) xs cs else None)
      else if cc_ok c x \<and> hi \<noteq> Some 0
           then rep_lazy c (lo - 1) (dec hi) k (Some x) xs cs else None)"

definition at_boundary :: "char option \<Rightarrow> string \<Rightarrow> bool" where
  "at_boundary p s =
     ((case p of None \<Rightarrow> False | Some a \<Rightarrow> is_word a) \<noteq>
      (case s of [] \<Rightarrow> False | b # _ \<Rightarrow> is_word b))"

text \<open>\<open>rmatch r k st\<close>: match \<open>r\<close> at \<open>st\<close> and go on with \<open>k\<close>; \<open>None\<close> makes the
  matcher backtrack.\<close>

primrec rmatch :: "re \<Rightarrow> (mstate \<Rightarrow> mstate option) \<Rightarrow> mstate \<Rightarrow> mstate option" where
  "rmatch (Sym c) k st =
     (case st of (p, s, cs) \<Rightarrow>
        (case s of [] \<Rightarrow> None | x # xs \<Rightarrow> if cc_ok c x then k (Some x, xs, cs) else None))"
| "rmatch Emp k st = k st"
| "rmatch (Cat a b) k st = rmatch a (rmatch b k) st"
| "rmatch (Alt a b) k st =
     (case rmatch a k st of Some r \<Rightarrow> Some r | None \<Rightarrow> rmatch b k st)"
| "rmatch (Opt a) k st =
     (case rmatch a k st of Some r \<Rightarrow> Some r | None \<Rightarrow> k st)"
| "rmatch (Rep g lo hi c) k st =
     (case st of (p, s, cs) \<Rightarrow>
        if g then rep_greedy c lo hi k p s cs else rep_lazy c lo hi k p s cs)"
| "rmatch (Grp n a) k st =
     (case st of (p, s, cs) \<Rightarrow>
        rmatch a (\<lambda>(p', s', cs'). k (p', s', (n, take (length s - length s') s) # cs')) st)"
| "rmatch Bnd k st =
     (case st of (p, s, cs) \<Rightarrow> if at_boundary p s then k st else None)"
| "rmatch Eos k st =
     (case st of (p, s, cs) \<Rightarrow> if s = [] \<or> s = [CHR 0x0A] then k st else None)"

text \<open>A match object: the text of the whole match and the captured groups.\<close>

type_synonym rm = "string \<times> (nat \<times> string) list"

definition match_at :: "re \<Rightarrow> char option \<Rightarrow> string \<Rightarrow> rm option" where
  "match_at r p s =
     (case rmatch r Some (p, s, []) of
        None \<Rightarrow> None
      | Some (p', s', cs) \<Rightarrow> Some (take (length s - length s') s, cs))"

text \<open>\<^verbatim>\<open>m.group(n)\<close> for \<open>n \<ge> 1\<close>; a group that took no part in the match gives the
  empty string, as in the results of \<^verbatim>\<open>re.findall\<close>.\<close>

definition grp :: "rm \<Rightarrow> nat \<Rightarrow> string" where
  "grp m n = (case map_of (snd m) n of None \<Rightarrow> [] | Some t \<Rightarrow> t)"

text \<open>\<^verbatim>\<open>re.search(r, s)\<close>: the match at the leftmost position that has one.\<close>

fun search_from :: "re \<Rightarrow> char option \<Rightarrow> string \<Rightarrow> rm option" where
  "search_from r p [] = match_at r p []"
| "search_from r p (x # xs) =
     (case match_at r p (x # xs) of
        Some m \<Rightarrow> Some m
      | None \<Rightarrow> search_from r (Some x) xs)"

definition re_search :: "re \<Rightarrow> string \<Rightarrow> rm option" where
  "re_search r s = search_from r None s"

text \<open>The successive non-overlapping matches, left to right; \<open>skip\<close> counts the characters
  of the last match still to be passed over.\<close>

fun finditer_from :: "re \<Rightarrow> char option \<Rightarrow> string \<Rightarrow> nat \<Rightarrow> rm list" where
  "finditer_from r p [] skip =
     (if skip = 0 then (case match_at r p [] of None \<Rightarrow> [] | Some m \<Rightarrow> [m]) else [])"
| "finditer_from r p (x # xs) skip =
     (if skip > 0 then finditer_from r (Some x) xs (skip - 1)
      else (case match_at r p (x # xs) of
              None \<Rightarrow> finditer_from r (Some x) xs 0
            | Some m \<Rightarrow> m # finditer_from r (Some x) xs (length (fst m) - 1)))"

definition finditer :: "re \<Rightarrow> string \<Rightarrow> rm list" where
  "finditer r s = finditer_from r None s 0"

primrec ngroups :: "re \<Rightarrow> nat" where
  "ngroups (Sym c) = 0"
| "ngroups Emp = 0"
| "ngroups (Cat a b) = ngroups a + ngroups b"
| "ngroups (Alt a b) = ngroups a + ngroups b"
| "ngroups (Opt a) = ngroups a"
| "ngroups (Rep g lo hi c) = 0"
| "ngroups (Grp n a) = Suc (ngroups a)"
| "ngroups Bnd = 0"
| "ngroups Eos = 0"

text \<open>\<^verbatim>\<open>re.findall(r, s)\<close> returns strings for a pattern with at most one group (the whole
  match, or the group) and tuples of strings for a pattern with several groups. Which of
  the two it is depends on the pattern alone, so the model has one function for each.\<close>

definition findall :: "re \<Rightarrow> string \<Rightarrow> string list" where
  "findall r s = map (\<lambda>m. if ngroups r = 0 then fst m else grp m 1) (finditer r s)"

definition findall_tuples :: "re \<Rightarrow> string \<Rightarrow> string list list" where
  "findall_tuples r s = map (\<lambda>m. map (grp m) [1 ..< Suc (ngroups r)]) (finditer r s)"

text \<open>Pattern combinators.\<close>

definition Lit :: "string \<Rightarrow> re" where
  "Lit s = foldr (\<lambda>c r. Cat (Sym (Ch c)) r) s Emp"

definition Seq :: "re list \<Rightarrow> re" where
  "Seq rs = foldr Cat rs Emp"

fun Alts :: "re list \<Rightarrow> re" where
  "Alts [] = Emp"
| "Alts [r] = r"
| "Alts (r # rs) = Alt r (Alts rs)"

definition Words :: "string list \<Rightarrow> re" where
  "Words ws = Alts (map Lit ws)"

definition Plus :: "cc \<Rightarrow> re" where
  "Plus c = Rep True 1 None c"

definition Star :: "cc \<Rightarrow> re" where
  "Star c = Rep True 0 None c"

definition PlusLazy :: "cc \<Rightarrow> re" where
  "PlusLazy c = Rep False 1 None c"

definition Between :: "nat \<Rightarrow> nat \<Rightarrow> cc \<Rightarrow> re" where
  "Between lo hi c = Rep True lo (Some hi) c"

text \<open>\<^verbatim>\<open>w?\<close> after a word: \<^verbatim>\<open>days?\<close> is \<open>Plural ''day''\<close>.\<close>

definition Plural :: "string \<Rightarrow> re" where
  "Plural w = Cat (Lit w) (Opt (Sym (Ch CHR ''s'')))"

subsection \<open>Dates\<close>

text \<open>
  The part of \<^verbatim>\<open>datetime\<close> that the timeframe tool uses: the constructor and
  \<^verbatim>\<open>replace\<close> raise \<^verbatim>\<open>ValueError\<close> on a date that does not exist, adding a
  \<^verbatim>\<open>timedelta\<close> raises \<^verbatim>\<open>OverflowError\<close> outside the years 1 to 9999. The time
  of day is carried along as the microseconds since midnight.
\<close>

record datetime =
  dt_year :: int
  dt_month :: int
  dt_day :: int
  dt_time :: nat

definition is_leap :: "int \<Rightarrow> bool" where
  "is_leap y = (y mod 4 = 0 \<and> (y mod 100 \<noteq> 0 \<or> y mod 400 = 0))"

definition days_in_month :: "int \<Rightarrow> int \<Rightarrow> int" where
  "days_in_month y m =
     (if m = 2 then (if is_leap y then 29 else 28)
      else if m = 4 \<or> m = 6 \<or> m = 9 \<or> m = 11 then 30 else 31)"

definition valid_date :: "int \<Rightarrow> int \<Rightarrow> int \<Rightarrow> bool" where
  "valid_date y m d =
     (1 \<le> y \<and> y \<le> 9999 \<and> 1 \<le> m \<and> m \<le> 12 \<and> 1 \<le> d \<and> d \<le> days_in_month y m)"

text \<open>\<^verbatim>\<open>datetime(y, m, d)\<close>\<close>

definition mk_datetime :: "int \<Rightarrow> int \<Rightarrow> int \<Rightarrow> error + datetime" where
  "mk_datetime y m d =
     (if valid_date y m d
      then Inr \<lparr>dt_year = y, dt_month = m, dt_day = d, dt_time = 0\<rparr>
      else Inl ValueError)"

text \<open>\<^verbatim>\<open>t.replace(year=y, month=m, day=d)\<close>\<close>

definition replace :: "datetime \<Rightarrow> int \<Rightarrow> int \<Rightarrow> int \<Rightarrow> error + datetime" where
  "replace t y m d =
     (if valid_date y m d
      then Inr (t\<lparr>dt_year := y, dt_month := m, dt_day := d\<rparr>)
      else Inl ValueError)"

definition days_before_year :: "int \<Rightarrow> int" where
  "days_before_year y =
     (y - 1) * 365 + (y - 1) div 4 - (y - 1) div 100 + (y - 1) div 400"

definition days_before_month :: "int \<Rightarrow> int \<Rightarrow> int" where
  "days_before_month y m = sum_list (map (days_in_month y) [1 .. m - 1])"

text \<open>\<^verbatim>\<open>t.toordinal()\<close>: the day number, 1 for 0001-01-01.\<close>

definition toordinal :: "datetime \<Rightarrow> int" where
  "toordinal t = days_before_year (dt_year t) + days_before_month (dt_year t) (dt_month t) + dt_day t"

definition max_ordinal :: int where
  "max_ordinal = 3652059"

text \<open>The year, month and day of a day number between 1 and \<open>max_ordinal\<close>.\<close>

definition ord_year :: "int \<Rightarrow> int" where
  "ord_year n =
     (let n0 = n - 1;
          n400 = n0 div 146097; r400 = n0 mod 146097;
          n100 = r400 div 36524; r100 = r400 mod 36524;
          n4 = r100 div 1461; r4 = r100 mod 1461;
          n1 = r4 div 365;
          y = n400 * 400 + n100 * 100 + n4 * 4 + n1 + 1
      in if n1 = 4 \<or> n100 = 4 then y - 1 else y)"

fun ord_month :: "int \<Rightarrow> int \<Rightarrow> nat \<Rightarrow> int \<Rightarrow> int \<times> int" where
  "ord_month y m 0 r = (m, r)"
| "ord_month y m (Suc fuel) r =
     (if r \<le> days_in_month y m then (m, r) else ord_month y (m + 1) fuel (r - days_in_month y m))"

definition fromordinal :: "int \<Rightarrow> nat \<Rightarrow> datetime" where
  "fromordinal n tm =
     (let y = ord_year n; md = ord_month y 1 11 (n - days_before_year y)
      in \<lparr>dt_year = y, dt_month = fst md, dt_day = snd md, dt_time = tm\<rparr>)"

text \<open>\<^verbatim>\<open>t + timedelta(days=k)\<close>; the \<^verbatim>\<open>timedelta\<close> itself must have at most
  999999999 days.\<close>

definition add_days :: "datetime \<Rightarrow> int \<Rightarrow> error + datetime" where
  "add_days t k =
     (if \<bar>k\<bar> > 999999999 then Inl OverflowError
      else let n = toordinal t + k in
        if 1 \<le> n \<and> n \<le> max_ordinal then Inr (fromordinal n (dt_time t))
        else Inl OverflowError)"

text \<open>\<^verbatim>\<open>t.weekday()\<close>: 0 for Monday.\<close>

definition weekday :: "datetime \<Rightarrow> int" where
  "weekday t = (toordinal t + 6) mod 7"

subsection \<open>Dictionaries and loops over patterns\<close>

text \<open>A \<^verbatim>\<open>dict\<close> with string keys, in insertion order.\<close>

fun dict_set :: "(string \<times> 'v) list \<Rightarrow> string \<Rightarrow> 'v \<Rightarrow> (string \<times> 'v) list" where
  "dict_set [] k v = [(k, v)]"
| "dict_set ((k', v') # kvs) k v =
     (if k' = k then (k, v) # kvs else (k', v') # dict_set kvs k v)"

text \<open>\<^verbatim>\<open>d.get(k, default)\<close>\<close>

definition dict_get :: "(string \<times> 'v) list \<Rightarrow> string \<Rightarrow> 'v \<Rightarrow> 'v" where
  "dict_get d k dflt = (case map_of d k of None \<Rightarrow> dflt | Some v \<Rightarrow> v)"

text \<open>\<^verbatim>\<open>for pattern in patterns: match = re.search(pattern, s); if match: return ...\<close>\<close>

fun first_match :: "re list \<Rightarrow> string \<Rightarrow> rm option" where
  "first_match [] s = None"
| "first_match (r # rs) s =
     (case re_search r s of Some m \<Rightarrow> Some m | None \<Rightarrow> first_match rs s)"

definition matches :: "re \<Rightarrow> string \<Rightarrow> bool" where
  "matches r s = (re_search r s \<noteq> None)"

text \<open>\<^verbatim>\<open>[m.strip() for m in ms if m.strip()]\<close>\<close>

definition stripped :: "string list \<Rightarrow> string list" where
  "stripped ms = map strip (filter (\<lambda>m. strip m \<noteq> []) ms)"

subsection \<open>IntentExtractionTool\<close>

record intent_result =
  domain :: string
  action :: string
  outcome :: string
  intent_context :: "string list"
  urgency :: string
  intent_confidence :: rat
  intent_reasoning :: ftext

definition domain_patterns :: "(string \<times> string list) list" where
  "domain_patterns =
    [(''fitness'', [''workout'', ''exercise'', ''run'', ''gym'', ''weight'', ''muscle'', ''cardio'',
        ''marathon'', ''fitness'']),
     (''learning'', [''learn'', ''study'', ''course'', ''skill'', ''education'', ''training'',
        ''certification'', ''language'']),
     (''career'', [''job'', ''career'', ''promotion'', ''salary'', ''work'', ''professional'',
        ''business'', ''interview'', ''promoted'', ''developer'', ''senior'']),
     (''finance'', [''money'', ''save'', ''budget'', ''invest'', ''debt'', ''financial'', ''income'',
        ''expense'']),
     (''health'', [''health'', ''doctor'', ''medical'', ''diet'', ''nutrition'', ''sleep'',
        ''wellness'', ''therapy'']),
     (''nutrition'', [''eat'', ''food'', ''diet'', ''nutrition'', ''meal'', ''calories'', ''protein'',
        ''vegetables'']),
     (''sleep'', [''sleep'', ''rest'', ''bedtime'', ''wake'', ''hours'', ''insomnia'', ''tired'']),
     (''habits'', [''habit'', ''routine'', ''daily'', ''practice'', ''consistency'', ''discipline'']),
     (''social'', [''friends'', ''family'', ''relationship'', ''social'', ''network'', ''community'']),
     (''projects'', [''project'', ''build'', ''create'', ''develop'', ''complete'', ''finish'',
        ''accomplish''])]"

text \<open>\<^verbatim>\<open>sum(1 for keyword in keywords if keyword in description)\<close>\<close>

definition keyword_score :: "string \<Rightarrow> string list \<Rightarrow> nat" where
  "keyword_score description keywords = length (filter (\<lambda>keyword. contains description keyword) keywords)"

text \<open>The dictionary \<^verbatim>\<open>domain_scores\<close>: the domains with a positive score, in the order
  of the table.\<close>

fun domain_scores :: "string \<Rightarrow> (string \<times> string list) list \<Rightarrow> (string \<times> nat) list" where
  "domain_scores description [] = []"
| "domain_scores description ((dmn, keywords) # patterns) =
     (if keyword_score description keywords > 0
      then (dmn, keyword_score description keywords) # domain_scores description patterns
      else domain_scores description patterns)"

text \<open>\<^verbatim>\<open>max(d, key=d.get)\<close> on a non-empty dictionary: the iteration keeps the best key
  so far and replaces it only by a key with a strictly greater value.\<close>

fun max_key :: "string \<times> nat \<Rightarrow> (string \<times> nat) list \<Rightarrow> string" where
  "max_key (k, v) [] = k"
| "max_key (k, v) ((k', v') # kvs) = (if v' > v then max_key (k', v') kvs else max_key (k, v) kvs)"

definition classify_domain :: "string \<Rightarrow> (string \<times> string list) list \<Rightarrow> string" where
  "classify_domain description patterns =
     (case domain_scores description patterns of
        [] \<Rightarrow> ''projects''
      | kv # kvs \<Rightarrow> max_key kv kvs)"

definition action_patterns :: "re list" where
  "action_patterns =
    [Seq [Bnd, Grp 1 (Words [''learn'', ''study'', ''master'', ''understand'']), Bnd],
     Seq [Bnd, Grp 1 (Words [''run'', ''exercise'', ''train'', ''workout'']), Bnd],
     Seq [Bnd, Grp 1 (Words [''save'', ''earn'', ''invest'', ''budget'']), Bnd],
     Seq [Bnd, Grp 1 (Words [''build'', ''create'', ''develop'', ''make'']), Bnd],
     Seq [Bnd, Grp 1 (Words [''lose'', ''gain'', ''improve'', ''increase'', ''decrease'']), Bnd],
     Seq [Bnd, Grp 1 (Words [''complete'', ''finish'', ''achieve'', ''accomplish'']), Bnd],
     Seq [Bnd, Grp 1 (Words [''start'', ''begin'', ''initiate'']), Bnd],
     Seq [Bnd, Grp 1 (Words [''read'', ''write'', ''practice'']), Bnd]]"

text \<open>The fallback loop of \<^verbatim>\<open>_extract_action\<close> over the words of the description.\<close>

fun action_fallback :: "string list \<Rightarrow> string" where
  "action_fallback [] = ''achieve''"
| "action_fallback (word # words) =
     (if lower word \<in> set [''want'', ''need'', ''plan'', ''hope'', ''aim'', ''goal'']
        then action_fallback words
      else if length word > 3 \<and>
           (endswith (lower word) ''ing'' \<or> endswith (lower word) ''ed'' \<or> endswith (lower word) ''er'')
        then lower word
      else action_fallback words)"

definition extract_action :: "string \<Rightarrow> string" where
  "extract_action description =
     (case first_match action_patterns (lower description) of
        Some m \<Rightarrow> grp m 1
      | None \<Rightarrow> action_fallback (split description))"

text \<open>The end of an outcome clause: \<^verbatim>\<open>(?:\.|$|by|in|within)\<close>\<close>

definition outcome_end :: re where
  "outcome_end = Alts [Lit ''.'', Eos, Lit ''by'', Lit ''in'', Lit ''within'']"

definition outcome_patterns :: "re list" where
  "outcome_patterns =
    [Seq [Words [''to'', ''want to'', ''need to'', ''plan to'', ''aim to'', ''goal is to''],
          Plus Space, Grp 1 (PlusLazy Dot), outcome_end],
     Seq [Words [''achieve'', ''accomplish'', ''complete'', ''finish'', ''reach''],
          Plus Space, Grp 1 (PlusLazy Dot), outcome_end],
     Seq [Words [''become'', ''get'', ''obtain'', ''gain''],
          Plus Space, Grp 1 (PlusLazy Dot), outcome_end]]"

definition extract_outcome :: "string \<Rightarrow> string" where
  "extract_outcome description =
     (case first_match outcome_patterns (lower description) of
        Some m \<Rightarrow> strip (grp m 1)
      | None \<Rightarrow>
          (let words = split description in
           if length words > 3 then join '' '' (take (min (length words) 8) words)
           else description))"

text \<open>The end of a context clause: \<^verbatim>\<open>(?:\.|$)\<close>\<close>

definition clause_end :: re where
  "clause_end = Alts [Lit ''.'', Eos]"

definition motivation_patterns :: "re list" where
  "motivation_patterns =
    [Seq [Words [''because'', ''since'', ''as'', ''for'', ''to help'', ''in order to''],
          Plus Space, Grp 1 (PlusLazy Dot), clause_end],
     Seq [Words [''so that'', ''so I can'', ''to be able to''],
          Plus Space, Grp 1 (PlusLazy Dot), clause_end]]"

definition context_constraint_patterns :: "re list" where
  "context_constraint_patterns =
    [Seq [Words [''but'', ''however'', ''although'', ''despite'', ''even though''],
          Plus Space, Grp 1 (PlusLazy Dot), clause_end],
     Seq [Words [''with'', ''using'', ''through'', ''via''],
          Plus Space, Grp 1 (PlusLazy Dot), clause_end]]"

definition extract_context :: "string \<Rightarrow> string list" where
  "extract_context description =
     stripped (concat (map (\<lambda>pattern. findall pattern (lower description)) motivation_patterns)
               @ concat (map (\<lambda>pattern. findall pattern (lower description))
                   context_constraint_patterns))"

definition determine_urgency :: "string \<Rightarrow> string" where
  "determine_urgency description =
     (let description_lower = lower description in
      if any_in [''urgent'', ''asap'', ''immediately'', ''critical'', ''emergency'', ''deadline'',
                 ''must''] description_lower then ''high''
      else if any_in [''soon'', ''quickly'', ''important'', ''priority'', ''need to'', ''should'']
                 description_lower then ''medium''
      else if any_in [''eventually'', ''someday'', ''when possible'', ''would like'', ''hope to'']
                 description_lower then ''low''
      else if matches (Seq [Bnd, Grp 1 (Words [''today'', ''tomorrow'', ''this week'', ''next week'']),
                 Bnd]) description_lower then ''high''
      else if matches (Seq [Bnd, Grp 1 (Words [''this month'', ''next month'', ''soon'']), Bnd])
                 description_lower then ''medium''
      else if matches (Seq [Bnd, Grp 1 (Words [''this year'', ''next year'', ''someday'']), Bnd])
                 description_lower then ''low''
      else ''medium'')"

text \<open>\<^verbatim>\<open>max(0.0, min(1.0, x))\<close>\<close>

definition clamp01 :: "rat \<Rightarrow> rat" where
  "clamp01 x = max 0 (min 1 x)"

definition calculate_confidence :: "string \<Rightarrow> string \<Rightarrow> string \<Rightarrow> string \<Rightarrow> rat" where
  "calculate_confidence description dmn act outc =
     (let word_count = length (split description);
          c0 = 5 / 10;
          c1 = (if word_count \<ge> 5 then c0 + 1 / 10 else c0);
          c2 = (if word_count \<ge> 10 then c1 + 1 / 10 else c1);
          c3 = (if act \<noteq> ''achieve'' then c2 + 1 / 10 else c2);
          c4 = (if length outc > 10 then c3 + 1 / 10 else c3);
          c5 = (if dmn \<noteq> ''projects'' then c4 + 1 / 10 else c4);
          c6 = (if word_count < 3 then c5 - 2 / 10 else c5);
          c7 = (if any_in [''something'', ''stuff'', ''things'', ''whatever''] (lower description)
                then c6 - 3 / 10 else c6)
      in clamp01 c7)"

text \<open>The body of the \<^verbatim>\<open>try\<close> of \<^verbatim>\<open>IntentExtractionTool.run\<close>. No operation in
  it raises on a string.\<close>

definition intent_body :: "string \<Rightarrow> error + intent_result" where
  "intent_body description =
     (let dmn = classify_domain (lower description) domain_patterns;
          act = extract_action description;
          outc = extract_outcome description;
          ctx = extract_context description;
          urg = determine_urgency description;
          conf = calculate_confidence description dmn act outc
      in Inr \<lparr>domain = dmn, action = act, outcome = outc, intent_context = ctx, urgency = urg,
               intent_confidence = conf,
               intent_reasoning = [S ''Classified as '', S dmn, S '' based on keywords. Action: '',
                 S act, S '', Outcome: '', S outc]\<rparr>)"

text \<open>The \<^verbatim>\<open>except Exception as e\<close> branch.\<close>

definition intent_fallback :: "error \<Rightarrow> intent_result" where
  "intent_fallback e =
     \<lparr>domain = ''projects'', action = ''achieve'', outcome = ''goal completion'', intent_context = [],
      urgency = ''medium'', intent_confidence = 3 / 10,
      intent_reasoning = [S ''Fallback classification due to error: '', E e]\<rparr>"

definition intent_try :: "error + intent_result \<Rightarrow> intent_result" where
  "intent_try r = (case r of Inr res \<Rightarrow> res | Inl e \<Rightarrow> intent_fallback e)"

definition intent_run :: "string \<Rightarrow> intent_result" where
  "intent_run description = intent_try (intent_body description)"

subsection \<open>TimeframeParsingTool\<close>

record timeframe_result =
  startDate :: "datetime option"
  endDate :: "datetime option"
  duration :: "(string \<times> int) list"
  milestones :: "string list"
  flexibility :: string
  extractedPhrases :: "string list"
  timeframe_confidence :: rat
  timeframe_error :: "error option"

definition month_names :: "string list" where
  "month_names = [''january'', ''february'', ''march'', ''april'', ''may'', ''june'', ''july'',
     ''august'', ''september'', ''october'', ''november'', ''december'']"

definition units :: re where
  "units = Alts [Plural ''day'', Plural ''week'', Plural ''month'', Plural ''year'']"

definition ordinal_suffix :: re where
  "ordinal_suffix = Opt (Words [''st'', ''nd'', ''rd'', ''th''])"

text \<open>The end of a phrase: \<^verbatim>\<open>(?:\.|$|,)\<close>\<close>

definition phrase_end :: re where
  "phrase_end = Alts [Lit ''.'', Eos, Lit '','']"

definition time_patterns :: "re list" where
  "time_patterns =
    [Seq [Bnd, Words [''by'', ''before'', ''until'', ''deadline''], Plus Space,
          Grp 1 (PlusLazy (Not CHR ''.'')), phrase_end],
     Seq [Bnd, Words [''in'', ''within'', ''over'', ''during''], Plus Space,
          Grp 1 (Seq [Plus Digit, Plus Space, units])],
     Seq [Bnd, Words [''next'', ''this'', ''coming''], Plus Space,
          Grp 1 (Words [''week'', ''month'', ''year'', ''summer'', ''winter'', ''spring'', ''fall''])],
     Seq [Bnd, Words month_names, Plus Space, Between 1 2 Digit, ordinal_suffix, Opt (Lit '',''),
          Star Space, Rep False 4 (Some 4) Digit],
     Seq [Bnd, Between 1 2 Digit, Lit ''/'', Between 1 2 Digit, Lit ''/'', Between 2 4 Digit, Bnd],
     Seq [Bnd, Between 1 2 Digit, Lit ''-'', Between 1 2 Digit, Lit ''-'', Between 2 4 Digit, Bnd],
     Seq [Bnd, Words [''today'', ''tomorrow'', ''yesterday''], Bnd],
     Seq [Bnd, Words [''asap'', ''immediately'', ''soon'', ''eventually''], Bnd]]"

definition extract_time_phrases :: "string \<Rightarrow> string list" where
  "extract_time_phrases description =
     stripped (concat (map (\<lambda>pattern. findall pattern (lower description)) time_patterns))"

definition date_patterns :: "re list" where
  "date_patterns =
    [Seq [Bnd, Grp 1 (Seq [Between 1 2 Digit, Lit ''/'', Between 1 2 Digit, Lit ''/'',
                           Between 2 4 Digit]), Bnd],
     Seq [Bnd, Grp 1 (Seq [Between 1 2 Digit, Lit ''-'', Between 1 2 Digit, Lit ''-'',
                           Between 2 4 Digit]), Bnd],
     Seq [Bnd, Grp 1 (Words month_names), Plus Space, Grp 2 (Between 1 2 Digit), ordinal_suffix,
          Opt (Lit '',''), Star Space, Opt (Grp 3 (Between 4 4 Digit))]]"

text \<open>\<^verbatim>\<open>months.get(month_name.lower(), 1)\<close>\<close>

definition month_name_to_number :: "string \<Rightarrow> int" where
  "month_name_to_number month_name =
     (case map_of (zip month_names [1, 2, 3, 4, 5, 6, 7, 8, 9, 10, 11, 12]) (lower month_name) of
        Some n \<Rightarrow> n
      | None \<Rightarrow> 1)"

text \<open>The two branches of the \<^verbatim>\<open>try\<close> inside the loop of \<^verbatim>\<open>_parse_dates\<close>; the
  result is the new value of \<^verbatim>\<open>end_date\<close>, or \<open>None\<close> when the branch assigns nothing.\<close>

definition parse_month_date :: "int \<Rightarrow> string list \<Rightarrow> error + datetime option" where
  "parse_month_date current_year m =
     (case m of
        [month_name, day, year] \<Rightarrow>
          (let month_num = month_name_to_number month_name in
           ebind (if year \<noteq> [] then py_int year else Inr current_year) (\<lambda>y.
           ebind (py_int day) (\<lambda>d.
           ebind (mk_datetime y month_num d) (\<lambda>t. Inr (Some t)))))
      | _ \<Rightarrow> Inr None)"

definition parse_numeric_date :: "string \<Rightarrow> error + datetime option" where
  "parse_numeric_date date_str =
     (let parts = (if contains date_str ''/'' then split_on CHR ''/'' date_str
                   else split_on CHR ''-'' date_str) in
      case parts of
        [month, day, year] \<Rightarrow>
          ebind (py_int year) (\<lambda>y.
          let y' = (if y < 100 then y + (if y < 50 then 2000 else 1900) else y) in
          ebind (py_int month) (\<lambda>mo.
          ebind (py_int day) (\<lambda>d.
          ebind (mk_datetime y' mo d) (\<lambda>t. Inr (Some t)))))
      | _ \<Rightarrow> Inr None)"

text \<open>The attempts of the loop for one pattern, in the order of its matches. A pattern
  with three groups gives tuples of length three (the month-name branch); the others
  give strings (the numeric branch).\<close>

definition date_attempts :: "int \<Rightarrow> string \<Rightarrow> re \<Rightarrow> (error + datetime option) list" where
  "date_attempts current_year s pattern =
     (if ngroups pattern \<ge> 2
      then map (\<lambda>m. if length m = 3 then parse_month_date current_year m
                     else parse_numeric_date (hd m)) (findall_tuples pattern s)
      else map parse_numeric_date (findall pattern s))"

text \<open>One round of the loop: \<^verbatim>\<open>except (ValueError, IndexError): continue\<close> keeps
  \<^verbatim>\<open>end_date\<close>; any other exception leaves the loop.\<close>

fun date_loop :: "datetime option \<Rightarrow> (error + datetime option) list \<Rightarrow> error + datetime option" where
  "date_loop end_date [] = Inr end_date"
| "date_loop end_date (Inr (Some t) # as) = date_loop (Some t) as"
| "date_loop end_date (Inr None # as) = date_loop end_date as"
| "date_loop end_date (Inl ValueError # as) = date_loop end_date as"
| "date_loop end_date (Inl IndexError # as) = date_loop end_date as"
| "date_loop end_date (Inl OverflowError # as) = Inl OverflowError"

definition relative_word :: "string \<Rightarrow> re" where
  "relative_word w = Seq [Bnd, Lit w, Bnd]"

text \<open>\<^verbatim>\<open>\bin\s+(\d+)\s+days?\b\<close>\<close>

definition in_pattern :: "string \<Rightarrow> re" where
  "in_pattern unit = Seq [Bnd, Lit ''in'', Plus Space, Grp 1 (Plus Digit), Plus Space, Plural unit, Bnd]"

text \<open>The loop over \<^verbatim>\<open>in_patterns\<close>; the second component is the number of days of one
  unit.\<close>

fun in_loop :: "datetime \<Rightarrow> string \<Rightarrow> (re \<times> int) list \<Rightarrow> error + datetime option" where
  "in_loop now s [] = Inr None"
| "in_loop now s ((pattern, days) # ps) =
     (case re_search pattern s of
        Some m \<Rightarrow> ebind (py_int (grp m 1)) (\<lambda>x. ebind (add_days now (x * days)) (\<lambda>t. Inr (Some t)))
      | None \<Rightarrow> in_loop now s ps)"

text \<open>\<^verbatim>\<open>_parse_relative_dates\<close>. The dictionary \<^verbatim>\<open>relative_patterns\<close> is built first, so
  each of its eight dates is computed, and may raise, whatever the description says.\<close>

definition parse_relative_dates :: "datetime \<Rightarrow> string \<Rightarrow> error + datetime option" where
  "parse_relative_dates now description =
     ebind (add_days now 1) (\<lambda>tomorrow.
     ebind (add_days now 7) (\<lambda>next_week.
     ebind (add_days now (7 - weekday now)) (\<lambda>this_week.
     ebind (add_days now 30) (\<lambda>next_month.
     ebind (replace now (dt_year now) (dt_month now) 28) (\<lambda>this_month.
     ebind (replace now (dt_year now + 1) (dt_month now) (dt_day now)) (\<lambda>next_year.
     ebind (replace now (dt_year now) 12 31) (\<lambda>this_year.
       (case find (\<lambda>(pattern, date_value). matches pattern (lower description))
               [(relative_word ''today'', now),
                (relative_word ''tomorrow'', tomorrow),
                (relative_word ''next week'', next_week),
                (relative_word ''this week'', this_week),
                (relative_word ''next month'', next_month),
                (relative_word ''this month'', this_month),
                (relative_word ''next year'', next_year),
                (relative_word ''this year'', this_year)] of
          Some (pattern, date_value) \<Rightarrow> Inr (Some date_value)
        | None \<Rightarrow>
            in_loop now (lower description)
              [(in_pattern ''day'', 1), (in_pattern ''week'', 7), (in_pattern ''month'', 30)]))))))))"

text \<open>\<^verbatim>\<open>_parse_dates\<close>. The clock is read for the current year, then inside
  \<^verbatim>\<open>_parse_relative_dates\<close> when no literal date was found, then for the start date.\<close>

definition parse_dates :: "(nat \<Rightarrow> datetime) \<Rightarrow> string \<Rightarrow> string list \<Rightarrow>
    error + (datetime option \<times> datetime option)" where
  "parse_dates clk description phrases =
     (let current_year = dt_year (clk 0) in
      ebind (date_loop None
               (concat (map (date_attempts current_year (lower description)) date_patterns)))
        (\<lambda>end_date.
           case end_date of
             Some t \<Rightarrow> Inr (Some (clk 1), Some t)
           | None \<Rightarrow>
               ebind (parse_relative_dates (clk 1) description) (\<lambda>end_date'.
                 case end_date' of
                   Some t \<Rightarrow> Inr (Some (clk 2), Some t)
                 | None \<Rightarrow> Inr (None, None))))"

definition duration_patterns :: "(re \<times> string) list" where
  "duration_patterns =
    [(Seq [Grp 1 (Plus Digit), Star Space, Plural ''hour''], ''hours''),
     (Seq [Grp 1 (Plus Digit), Star Space, Plural ''day''], ''days''),
     (Seq [Grp 1 (Plus Digit), Star Space, Plural ''week''], ''weeks''),
     (Seq [Grp 1 (Plus Digit), Star Space, Plural ''month''], ''months''),
     (Seq [Grp 1 (Plus Digit), Star Space, Plural ''year''], ''years'')]"

text \<open>The loop of \<^verbatim>\<open>_extract_duration\<close> that fills the dictionary \<^verbatim>\<open>duration\<close>.\<close>

fun duration_loop :: "string \<Rightarrow> (string \<times> int) list \<Rightarrow> (re \<times> string) list \<Rightarrow>
    error + (string \<times> int) list" where
  "duration_loop s dur [] = Inr dur"
| "duration_loop s dur ((pattern, unit) # ps) =
     (case findall pattern s of
        [] \<Rightarrow> duration_loop s dur ps
      | m # ms \<Rightarrow> ebind (py_int m) (\<lambda>n. duration_loop s (dict_set dur unit n) ps))"

definition total_days :: "(string \<times> int) list \<Rightarrow> rat" where
  "total_days dur =
     of_int (dict_get dur ''days'' 0)
     + of_int (dict_get dur ''weeks'' 0 * 7)
     + of_int (dict_get dur ''months'' 0 * 30)
     + of_int (dict_get dur ''years'' 0 * 365)
     + of_int (dict_get dur ''hours'' 0) / 24"

definition extract_duration :: "string \<Rightarrow> error + (string \<times> int) list" where
  "extract_duration description =
     ebind (duration_loop (lower description) [] duration_patterns) (\<lambda>dur.
       if dur \<noteq> [] then
         (if total_days dur > 0 then Inr [(''days'', \<lfloor>total_days dur\<rfloor>)] else Inr [])
       else Inr [])"

definition milestone_patterns :: "re list" where
  "milestone_patterns =
    [Seq [Words [''milestone'', ''checkpoint'', ''phase'', ''step''], Star Space, Star Digit,
          Opt (Lit '':''), Star Space, Grp 1 (PlusLazy (Not CHR ''.'')), phrase_end],
     Seq [Words [''first'', ''second'', ''third'', ''then'', ''next'', ''finally''], Plus Space,
          Grp 1 (PlusLazy (Not CHR ''.'')), phrase_end],
     Seq [Alt (Seq [Lit ''by'', Plus Space, Plus Word, Plus Space, Plus Digit])
              (Seq [Lit ''in'', Plus Space, Plus Digit, Plus Space, Plus Word]),
          Plus Space, Grp 1 (PlusLazy (Not CHR ''.'')), phrase_end]]"

definition extract_milestones :: "string \<Rightarrow> string list" where
  "extract_milestones description =
     take 5 (concat (map (\<lambda>pattern. stripped (findall pattern (lower description)))
                      milestone_patterns))"

definition determine_flexibility :: "string \<Rightarrow> string" where
  "determine_flexibility description =
     (let description_lower = lower description in
      if any_in [''eventually'', ''someday'', ''whenever'', ''no rush'', ''no hurry'']
           description_lower then ''very_flexible''
      else if any_in [''around'', ''approximately'', ''roughly'', ''about'', ''flexible'',
           ''when possible''] description_lower then ''flexible''
      else if any_in [''deadline'', ''must'', ''required'', ''due'', ''exactly'', ''precisely'']
           description_lower then ''fixed''
      else ''flexible'')"

definition calculate_timeframe_confidence ::
    "string list \<Rightarrow> datetime option \<Rightarrow> datetime option \<Rightarrow> rat" where
  "calculate_timeframe_confidence phrases start_date end_date =
     (let c0 = 3 / 10;
          c1 = (if phrases \<noteq> [] then c0 + 2 / 10 else c0);
          c2 = (if length phrases > 1 then c1 + 1 / 10 else c1);
          c3 = (if start_date \<noteq> None then c2 + 2 / 10 else c2);
          c4 = (if end_date \<noteq> None then c3 + 2 / 10 else c3)
      in min 1 c4)"

text \<open>The body of the \<^verbatim>\<open>try\<close> of \<^verbatim>\<open>TimeframeParsingTool.run\<close>.\<close>

definition timeframe_body :: "(nat \<Rightarrow> datetime) \<Rightarrow> string \<Rightarrow> error + timeframe_result" where
  "timeframe_body clk description =
     (let extracted_phrases = extract_time_phrases description in
      ebind (parse_dates clk description extracted_phrases) (\<lambda>(start_date, end_date).
      ebind (extract_duration description) (\<lambda>dur.
        let ms = extract_milestones description;
            flex = determine_flexibility description
        in Inr \<lparr>startDate = start_date, endDate = end_date, duration = dur, milestones = ms,
                 flexibility = flex, extractedPhrases = extracted_phrases,
                 timeframe_confidence =
                   calculate_timeframe_confidence extracted_phrases start_date end_date,
                 timeframe_error = None\<rparr>)))"

definition timeframe_fallback :: "error \<Rightarrow> timeframe_result" where
  "timeframe_fallback e =
     \<lparr>startDate = None, endDate = None, duration = [(''days'', 30)], milestones = [],
      flexibility = ''flexible'', extractedPhrases = [], timeframe_confidence = 2 / 10,
      timeframe_error = Some e\<rparr>"

definition timeframe_try :: "error + timeframe_result \<Rightarrow> timeframe_result" where
  "timeframe_try r = (case r of Inr res \<Rightarrow> res | Inl e \<Rightarrow> timeframe_fallback e)"

definition timeframe_run :: "(nat \<Rightarrow> datetime) \<Rightarrow> string \<Rightarrow> timeframe_result" where
  "timeframe_run clk description = timeframe_try (timeframe_body clk description)"

subsection \<open>MetricsIdentificationTool\<close>

record metric =
  name :: string
  unit :: string
  targetValue :: rat
  currentValue :: rat
  confidence :: string
  reasoning :: ftext

record metrics_result =
  metrics :: "metric list"
  metrics_confidence :: rat
  metrics_reasoning :: ftext

text \<open>\<^verbatim>\<open>(\d+(?:\.\d+)?)\<close>\<close>

definition number :: re where
  "number = Grp 1 (Seq [Plus Digit, Opt (Seq [Lit ''.'', Plus Digit])])"

definition numeric_patterns :: "(re \<times> string \<times> string) list" where
  "numeric_patterns =
    [(Seq [number, Star Space,
           Grp 2 (Alts [Plural ''pound'', Plural ''lb'', Lit ''kg'', Plural ''kilogram''])],
      ''weight'', ''lbs''),
     (Seq [number, Star Space, Grp 2 (Alts [Plural ''mile'', Lit ''km'', Plural ''kilometer''])],
      ''distance'', ''miles''),
     (Seq [number, Star Space, Grp 2 (Alts [Plural ''hour'', Plural ''hr''])],
      ''time'', ''hours''),
     (Seq [number, Star Space, Grp 2 (Alts [Plural ''minute'', Plural ''min''])],
      ''time'', ''minutes''),
     (Seq [number, Star Space, Grp 2 (Alts [Plural ''dollar'', Lit ''$'', Lit ''USD''])],
      ''money'', ''dollars''),
     (Seq [number, Star Space, Alts [Lit ''%'', Lit ''percent'']],
      ''percentage'', ''percent''),
     (Seq [number, Star Space, Grp 2 (Alts [Plural ''time'', Plural ''rep'', Plural ''repetition''])],
      ''count'', ''times''),
     (Seq [number, Star Space, Grp 2 (Alts [Plural ''page'', Plural ''chapter'', Plural ''book''])],
      ''reading'', ''pages''),
     (Seq [number, Star Space, Grp 2 (Alts [Plural ''word'', Plural ''character''])],
      ''writing'', ''words'')]"

text \<open>The matches of a pattern as sequences, as \<^verbatim>\<open>match[0]\<close>, \<^verbatim>\<open>match[1]\<close> and
  \<^verbatim>\<open>len(match)\<close> see them: the members of a tuple for a pattern with several groups,
  the characters of a string for the others.\<close>

definition match_items :: "re \<Rightarrow> string \<Rightarrow> string list list" where
  "match_items pattern s =
     (if ngroups pattern \<ge> 2 then findall_tuples pattern s
      else map (map (\<lambda>c. [c])) (findall pattern s))"

text \<open>The body of the inner loop of \<^verbatim>\<open>MetricsIdentificationTool.run\<close>.\<close>

definition explicit_metric :: "string \<Rightarrow> string \<Rightarrow> string list \<Rightarrow> error + metric" where
  "explicit_metric metric_type dflt_unit m =
     (case m of
        [] \<Rightarrow> Inl IndexError
      | v # rest \<Rightarrow>
          ebind (py_float v) (\<lambda>val.
            let unit_found = (case rest of [] \<Rightarrow> dflt_unit | u # _ \<Rightarrow> u) in
            Inr \<lparr>name = metric_type @ ''_target'', unit = unit_found, targetValue = val,
                  currentValue = 0, confidence = ''high'',
                  reasoning = [S ''Found explicit numeric value: '', F val, S '' '',
                               S unit_found]\<rparr>))"

fun collect :: "(error + 'a) list \<Rightarrow> error + 'a list" where
  "collect [] = Inr []"
| "collect (Inl e # rs) = Inl e"
| "collect (Inr x # rs) = ebind (collect rs) (\<lambda>xs. Inr (x # xs))"

definition explicit_metrics :: "string \<Rightarrow> error + metric list" where
  "explicit_metrics description =
     collect (concat (map (\<lambda>(pattern, metric_type, u).
         map (explicit_metric metric_type u) (match_items pattern (lower description)))
       numeric_patterns))"

definition identify_implicit_metrics :: "string \<Rightarrow> metric list" where
  "identify_implicit_metrics description =
     (let description_lower = lower description in
      (if any_in [''workout'', ''exercise'', ''fitness'', ''gym'', ''working'', ''shape'']
            description_lower
       then [\<lparr>name = ''workout_sessions'', unit = ''sessions'', targetValue = 12,
               currentValue = 0, confidence = ''medium'',
               reasoning = [S ''Fitness goal typically measured by workout frequency'']\<rparr>]
       else []) @
      (if any_in [''learn'', ''study'', ''course'', ''skill''] description_lower
       then [\<lparr>name = ''study_hours'', unit = ''hours'', targetValue = 20,
               currentValue = 0, confidence = ''medium'',
               reasoning = [S ''Learning goals typically measured by time invested'']\<rparr>]
       else []) @
      (if any_in [''read'', ''book'', ''chapter''] description_lower
       then [\<lparr>name = ''books_read'', unit = ''books'', targetValue = 1,
               currentValue = 0, confidence = ''medium'',
               reasoning = [S ''Reading goals typically measured by books completed'']\<rparr>]
       else []) @
      (if any_in [''daily'', ''habit'', ''routine'', ''every day''] description_lower
       then [\<lparr>name = ''consecutive_days'', unit = ''days'', targetValue = 30,
               currentValue = 0, confidence = ''medium'',
               reasoning = [S ''Habit goals typically measured by consistency'']\<rparr>]
       else []) @
      (if any_in [''project'', ''build'', ''create'', ''complete''] description_lower
       then [\<lparr>name = ''completion_percentage'', unit = ''percent'', targetValue = 100,
               currentValue = 0, confidence = ''medium'',
               reasoning = [S ''Project goals typically measured by completion percentage'']\<rparr>]
       else []))"

definition suggest_default_metrics :: "string \<Rightarrow> metric list" where
  "suggest_default_metrics description =
     [\<lparr>name = ''progress_score'', unit = ''points'', targetValue = 100, currentValue = 0,
       confidence = ''low'',
       reasoning = [S ''Generic progress metric for goals without explicit measurements'']\<rparr>]"

text \<open>\<^verbatim>\<open>confidence_scores.get(metric['confidence'], 0.3)\<close>\<close>

definition confidence_score :: "string \<Rightarrow> rat" where
  "confidence_score label =
     dict_get [(''high'', 9 / 10), (''medium'', 6 / 10), (''low'', 3 / 10)] label (3 / 10)"

definition calculate_metrics_confidence :: "metric list \<Rightarrow> rat" where
  "calculate_metrics_confidence ms =
     (if ms = [] then 0
      else min 1 (sum_list (map (\<lambda>m. confidence_score (confidence m)) ms) / of_nat (length ms)))"

definition metrics_body :: "string \<Rightarrow> error + metrics_result" where
  "metrics_body description =
     ebind (explicit_metrics description) (\<lambda>explicit.
       let found = explicit @ identify_implicit_metrics description;
           ms = (if found = [] then suggest_default_metrics description else found)
       in Inr \<lparr>metrics = take 5 ms,
                metrics_confidence = calculate_metrics_confidence ms,
                metrics_reasoning = [S ''Identified '', N (int (length ms)),
                                     S '' measurable metrics from the description'']\<rparr>)"

definition metrics_fallback :: "error \<Rightarrow> metrics_result" where
  "metrics_fallback e =
     \<lparr>metrics = [\<lparr>name = ''completion_status'', unit = ''percent'', targetValue = 100,
                   currentValue = 0, confidence = ''low'',
                   reasoning = [S ''Fallback metric due to error: '', E e]\<rparr>],
      metrics_confidence = 2 / 10,
      metrics_reasoning = [S ''Used fallback metrics due to processing error'']\<rparr>"

definition metrics_try :: "error + metrics_result \<Rightarrow> metrics_result" where
  "metrics_try r = (case r of Inr res \<Rightarrow> res | Inl e \<Rightarrow> metrics_fallback e)"

definition metrics_run :: "string \<Rightarrow> metrics_result" where
  "metrics_run description = metrics_try (metrics_body description)"

subsection \<open>ConstraintExtractionTool\<close>

record constraint_record =
  constraint :: string
  category :: string
  severity :: string

record constraints_result =
  constraints :: "constraint_record list"
  categories :: "(string \<times> string list) list"
  total_count :: nat
  constraints_confidence :: rat
  constraints_reasoning :: ftext

text \<open>\<^verbatim>\<open>[^.]+\<close> and \<^verbatim>\<open>[^.]*\<close>\<close>

definition clause :: re where
  "clause = Plus (Not CHR ''.'')"

definition clause0 :: re where
  "clause0 = Star (Not CHR ''.'')"

definition time_constraint_patterns :: "re list" where
  "time_constraint_patterns =
    [Seq [Words [''only'', ''just''], Plus Space,
          Grp 1 (Seq [Plus Digit, Plus Space,
                      Alts [Plural ''hour'', Plural ''minute'', Plural ''day''], Plus Space,
                      Words [''per'', ''each'', ''a''], Plus Space, Plus Word])],
     Seq [Words [''limited'', ''restricted''], Plus Space, Words [''to'', ''by''], Plus Space,
          Grp 1 (Seq [clause, Lit ''time'', clause0])],
     Seq [Words [''busy'', ''occupied'', ''unavailable''], Plus Space, Grp 1 clause],
     Seq [Words [''deadline'', ''due''], Plus Space, Grp 1 clause],
     Seq [Grp 1 (Seq [Plus Digit, Plus Space, Plural ''hour'', Plus Space, Lit ''per'', Plus Space,
                      Plus Word])]]"

definition resource_constraint_patterns :: "re list" where
  "resource_constraint_patterns =
    [Seq [Words [''budget'', ''money'', ''cost''], Plus Space,
          Words [''of'', ''is'', ''limited to''], Plus Space, Grp 1 clause],
     Seq [Words [''no'', ''without'', ''lack of'', ''limited''], Plus Space,
          Grp 1 (Words [''money'', ''budget'', ''funds'', ''equipment'', ''tools'', ''resources''])],
     Seq [Words [''can't afford'', ''too expensive'', ''costly''], Plus Space, Grp 1 clause],
     Seq [Words [''need'', ''require'', ''must have''], Plus Space,
          Grp 1 (Words [''equipment'', ''tools'', ''resources'', ''materials'']), Plus Space,
          Grp 2 clause]]"

definition skill_constraint_patterns :: "re list" where
  "skill_constraint_patterns =
    [Seq [Words [''don't know'', ''never'', ''no experience'', ''beginner'', ''new to''], Plus Space, Grp 1 clause],
     Seq [Words [''need to learn'', ''must learn'', ''have to study''], Plus Space, Grp 1 clause],
     Seq [Words [''lack'', ''missing'', ''without''], Plus Space,
          Grp 1 (Alts [Plural ''skill'', Lit ''knowledge'', Lit ''experience'']), Plus Space,
          Grp 2 clause0],
     Seq [Words [''difficult'', ''hard'', ''challenging''], Plus Space,
          Words [''because'', ''since''], Plus Space, Grp 1 clause]]"

definition external_constraint_patterns :: "re list" where
  "external_constraint_patterns =
    [Seq [Words [''depends on'', ''waiting for'', ''need approval from''], Plus Space, Grp 1 clause],
     Seq [Words [''weather'', ''season'', ''location''], Plus Space,
          Words [''dependent'', ''specific'', ''limited''], Plus Space, Grp 1 clause0],
     Seq [Words [''others'', ''family'', ''work'', ''job''], Plus Space,
          Alts [Plural ''prevent'', Plural ''limit'', Plural ''restrict''], Plus Space,
          Grp 1 clause0],
     Seq [Words [''availability'', ''schedule'', ''calendar''], Plus Space,
          Alts [Plural ''conflict'', Plural ''issue''], Plus Space, Grp 1 clause0]]"

definition personal_constraint_patterns :: "re list" where
  "personal_constraint_patterns =
    [Seq [Words [''afraid'', ''scared'', ''worried'', ''anxious''], Plus Space,
          Words [''of'', ''about'', ''that''], Plus Space, Grp 1 clause],
     Seq [Words [''health'', ''medical'', ''physical''], Plus Space,
          Alts [Plural ''issue'', Plural ''problem'', Plural ''limitation''], Plus Space,
          Grp 1 clause0],
     Seq [Words [''motivation'', ''discipline'', ''willpower''], Plus Space,
          Alts [Plural ''issue'', Plural ''problem'', Lit ''lack''], Plus Space, Grp 1 clause0],
     Seq [Words [''procrastination'', ''lazy'', ''unmotivated''], Plus Space, Grp 1 clause0]]"

text \<open>\<^verbatim>\<open>constraints.extend([match.strip() for match in matches if match.strip()])\<close> over
  the patterns of a category; each of them has one group.\<close>

definition extract_plain :: "re list \<Rightarrow> string \<Rightarrow> string list" where
  "extract_plain patterns description =
     concat (map (\<lambda>pattern. stripped (findall pattern (lower description))) patterns)"

text \<open>The loop of \<^verbatim>\<open>_extract_resource_constraints\<close> and
  \<^verbatim>\<open>_extract_skill_constraints\<close>: the matches of a pattern with several groups are
  tuples, joined with spaces; the matches of the others are strings, stripped and
  filtered.\<close>

definition extract_mixed :: "re list \<Rightarrow> string \<Rightarrow> string list" where
  "extract_mixed patterns description =
     concat (map (\<lambda>pattern.
         if ngroups pattern \<ge> 2
         then map (join '' '') (findall_tuples pattern (lower description))
         else stripped (findall pattern (lower description))) patterns)"

definition extract_time_constraints :: "string \<Rightarrow> string list" where
  "extract_time_constraints description = extract_plain time_constraint_patterns description"

definition extract_resource_constraints :: "string \<Rightarrow> string list" where
  "extract_resource_constraints description =
     extract_mixed resource_constraint_patterns description"

definition extract_skill_constraints :: "string \<Rightarrow> string list" where
  "extract_skill_constraints description = extract_mixed skill_constraint_patterns description"

definition extract_external_constraints :: "string \<Rightarrow> string list" where
  "extract_external_constraints description =
     extract_plain external_constraint_patterns description"

definition extract_personal_constraints :: "string \<Rightarrow> string list" where
  "extract_personal_constraints description =
     extract_plain personal_constraint_patterns description"

definition assess_constraint_severity :: "string \<Rightarrow> string \<Rightarrow> string" where
  "assess_constraint_severity c description =
     (let constraint_lower = lower c in
      if any_in [''impossible'', ''never'', ''can't'', ''unable'', ''critical'', ''major''] constraint_lower then ''high''
      else if any_in [''difficult'', ''challenging'', ''limited'', ''restricted'', ''problem'']
                 constraint_lower then ''medium''
      else ''low'')"

definition calculate_constraint_confidence :: "constraint_record list \<Rightarrow> rat" where
  "calculate_constraint_confidence cs =
     (if cs = [] then 3 / 10
      else min 1 (5 / 10 + min (4 / 10) (of_nat (length cs) * (1 / 10))))"

definition constraints_body :: "string \<Rightarrow> error + constraints_result" where
  "constraints_body description =
     (let cats = [(''time_constraints'', extract_time_constraints description),
                  (''resource_constraints'', extract_resource_constraints description),
                  (''skill_constraints'', extract_skill_constraints description),
                  (''external_constraints'', extract_external_constraints description),
                  (''personal_constraints'', extract_personal_constraints description)];
          all_constraints =
            concat (map (\<lambda>(cat, constraint_list).
                map (\<lambda>c. \<lparr>constraint = c, category = cat,
                            severity = assess_constraint_severity c description\<rparr>)
                  constraint_list) cats)
      in Inr \<lparr>constraints = all_constraints, categories = cats,
               total_count = length all_constraints,
               constraints_confidence = calculate_constraint_confidence all_constraints,
               constraints_reasoning =
                 [S ''Identified '', N (int (length all_constraints)), S '' constraints across '',
                  N (int (length (filter (\<lambda>(cat, l). l \<noteq> []) cats))), S '' categories'']\<rparr>)"

definition constraints_fallback :: "error \<Rightarrow> constraints_result" where
  "constraints_fallback e =
     \<lparr>constraints = [], categories = [], total_count = 0, constraints_confidence = 2 / 10,
      constraints_reasoning = [S ''Error extracting constraints: '', E e]\<rparr>"

definition constraints_try :: "error + constraints_result \<Rightarrow> constraints_result" where
  "constraints_try r = (case r of Inr res \<Rightarrow> res | Inl e \<Rightarrow> constraints_fallback e)"

definition constraints_run :: "string \<Rightarrow> constraints_result" where
  "constraints_run description = constraints_try (constraints_body description)"

subsection \<open>NLPAgent\<close>

record report =
  original_description :: string
  report_intent :: intent_result
  report_timeframe :: timeframe_result
  report_metrics :: metrics_result
  report_constraints :: constraints_result
  overall_confidence :: rat
  processing_timestamp :: datetime
  agent_version :: string
  report_error :: "error option"
  summary :: ftext
  recommendations :: "string list"

definition calculate_overall_confidence ::
    "intent_result \<Rightarrow> timeframe_result \<Rightarrow> metrics_result \<Rightarrow> constraints_result \<Rightarrow> rat" where
  "calculate_overall_confidence i t m c =
     (let confidences = [intent_confidence i, timeframe_confidence t, metrics_confidence m,
                         constraints_confidence c]
      in sum_list confidences / of_nat (length confidences))"

definition date_part :: "datetime \<Rightarrow> part" where
  "date_part t = D (dt_year t, dt_month t, dt_day t, dt_time t)"

text \<open>\<^verbatim>\<open>'. '.join(summary_parts) + '.'\<close> on formatted parts.\<close>

fun join_parts :: "ftext list \<Rightarrow> ftext" where
  "join_parts [] = []"
| "join_parts [x] = x"
| "join_parts (x # y # ys) = x @ [S ''. ''] @ join_parts (y # ys)"

definition generate_analysis_summary ::
    "intent_result \<Rightarrow> timeframe_result \<Rightarrow> metrics_result \<Rightarrow> rat \<Rightarrow> ftext" where
  "generate_analysis_summary i t m overall =
     (let p1 = [[S ''Goal classified as '', S (domain i), S '' domain with action '',
                 S [CHR 0x27], S (action i), S [CHR 0x27]]];
          p2 = (case endDate t of
                  Some e \<Rightarrow> [[S ''Target completion by '', date_part e]]
                | None \<Rightarrow>
                    if duration t \<noteq> [] then
                      (case map_of (duration t) ''days'' of
                         Some n \<Rightarrow> [[S ''Estimated duration: '', N n, S '' days'']]
                       | None \<Rightarrow> [])
                    else []);
          metric_count = length (metrics m);
          p3 = (if metric_count > 0
                then [[S ''Identified '', N (int metric_count), S '' measurable metrics'']]
                else []);
          confidence_level =
            (if overall > 7 / 10 then ''high'' else if overall > 4 / 10 then ''medium'' else ''low'');
          p4 = [[S ''Overall analysis confidence: '', S confidence_level]]
      in join_parts (p1 @ p2 @ p3 @ p4) @ [S ''.''])"

definition generate_recommendations ::
    "intent_result \<Rightarrow> timeframe_result \<Rightarrow> metrics_result \<Rightarrow> constraints_result \<Rightarrow> string list" where
  "generate_recommendations i t m c =
     take 5
      ((if intent_confidence i < 6 / 10
        then [''Consider providing more specific details about what you want to achieve'']
        else []) @
       (if timeframe_confidence t < 6 / 10
        then [''Add specific deadlines or timeframes to make the goal more time-bound'']
        else []) @
       (if metrics_confidence m < 6 / 10
        then [''Include measurable outcomes or success criteria'']
        else []) @
       (if total_count c = 0
        then [''Consider potential obstacles or constraints that might affect your goal'']
        else []) @
       (if domain i = ''fitness''
        then [''Consider tracking specific metrics like workout frequency or performance improvements'']
        else if domain i = ''learning''
        then [''Break down the learning goal into specific skills or knowledge areas'']
        else if domain i = ''career''
        then [''Define specific career milestones or skill developments'']
        else []))"

text \<open>\<^verbatim>\<open>_create_fallback_analysis(description, error)\<close>; \<open>stamp\<close> is the reading of
  the clock for \<^verbatim>\<open>processing_timestamp\<close>.\<close>

definition create_fallback_analysis :: "datetime \<Rightarrow> string \<Rightarrow> error \<Rightarrow> report" where
  "create_fallback_analysis stamp description e =
     \<lparr>original_description = description,
      report_intent =
        \<lparr>domain = ''projects'', action = ''achieve'', outcome = ''goal completion'',
         intent_context = [], urgency = ''medium'', intent_confidence = 2 / 10,
         intent_reasoning = [S ''Fallback analysis due to error: '', E e]\<rparr>,
      report_timeframe =
        \<lparr>startDate = None, endDate = None, duration = [(''days'', 30)], milestones = [],
         flexibility = ''flexible'', extractedPhrases = [], timeframe_confidence = 2 / 10,
         timeframe_error = None\<rparr>,
      report_metrics =
        \<lparr>metrics = [\<lparr>name = ''completion_status'', unit = ''percent'', targetValue = 100,
                      currentValue = 0, confidence = ''low'',
                      reasoning = [S ''Fallback metric'']\<rparr>],
         metrics_confidence = 2 / 10,
         metrics_reasoning = [S ''Fallback metrics due to processing error'']\<rparr>,
      report_constraints =
        \<lparr>constraints = [], categories = [], total_count = 0, constraints_confidence = 2 / 10,
         constraints_reasoning = [S ''No constraints identified due to processing error'']\<rparr>,
      overall_confidence = 2 / 10,
      processing_timestamp = stamp,
      agent_version = ''1.0.0'',
      report_error = Some e,
      summary = [S ''Analysis failed due to technical error. Manual review recommended.''],
      recommendations = [''Retry analysis with simplified description'',
                         ''Consider manual goal creation'']\<rparr>"

text \<open>The body of the \<^verbatim>\<open>try\<close> of \<^verbatim>\<open>process_goal_description\<close>: the four tools run
  one after the other, each behind its own \<^verbatim>\<open>try\<close>.\<close>

definition process_body :: "(nat \<Rightarrow> datetime) \<Rightarrow> datetime \<Rightarrow> string \<Rightarrow> error + report" where
  "process_body clk stamp description =
     (let intent_analysis = intent_run description;
          timeframe_analysis = timeframe_run clk description;
          metrics_analysis = metrics_run description;
          constraints_analysis = constraints_run description;
          overall = calculate_overall_confidence intent_analysis timeframe_analysis
                      metrics_analysis constraints_analysis
      in Inr \<lparr>original_description = description,
               report_intent = intent_analysis,
               report_timeframe = timeframe_analysis,
               report_metrics = metrics_analysis,
               report_constraints = constraints_analysis,
               overall_confidence = overall,
               processing_timestamp = stamp,
               agent_version = ''1.0.0'',
               report_error = None,
               summary = generate_analysis_summary intent_analysis timeframe_analysis
                           metrics_analysis overall,
               recommendations = generate_recommendations intent_analysis timeframe_analysis
                                   metrics_analysis constraints_analysis\<rparr>)"

definition process_goal_description :: "(nat \<Rightarrow> datetime) \<Rightarrow> datetime \<Rightarrow> string \<Rightarrow> report" where
  "process_goal_description clk stamp description =
     (case process_body clk stamp description of
        Inr res \<Rightarrow> res
      | Inl e \<Rightarrow> create_fallback_analysis stamp description e)"

subsection \<open>Notions used by the properties\<close>






text \<open>A description contains an explicit numeric metric when the numeric patterns of the
  metrics tool find one, and a concrete date when one of the date patterns of the
  timeframe tool matches.\<close>

definition has_explicit_metric :: "string \<Rightarrow> bool" where
  "has_explicit_metric description =
     (case explicit_metrics description of Inr (m # ms) \<Rightarrow> True | _ \<Rightarrow> False)"

definition has_literal_date :: "string \<Rightarrow> bool" where
  "has_literal_date description =
     list_ex (\<lambda>pattern. finditer pattern (lower description) \<noteq> []) date_patterns"

text \<open>Two clocks used in examples: every reading is the midnight that begins 15 June
  2025, or the one that begins 16 June 2025.\<close>

definition clock_june_15 :: "nat \<Rightarrow> datetime" where
  "clock_june_15 i = \<lparr>dt_year = 2025, dt_month = 6, dt_day = 15, dt_time = 0\<rparr>"


section \<open>Properties\<close>

subsection \<open>Confidence values\<close>

lemma clamp01_range: "0 \<le> clamp01 x \<and> clamp01 x \<le> 1"
  by (simp add: clamp01_def)

lemma calculate_confidence_range:
  "0 \<le> calculate_confidence d a b c \<and> calculate_confidence d a b c \<le> 1"
  unfolding calculate_confidence_def Let_def by (rule clamp01_range)

lemma intent_body_Inr: "\<exists>res. intent_body d = Inr res"
  by (simp add: intent_body_def Let_def)

lemma intent_body_confidence:
  "intent_body d = Inr res \<Longrightarrow>
     intent_confidence res = calculate_confidence d (domain res) (action res) (outcome res)"
  by (auto simp: intent_body_def Let_def)

lemma intent_run_range: "0 \<le> intent_confidence (intent_run d) \<and> intent_confidence (intent_run d) \<le> 1"
proof (cases "intent_body d")
  case (Inl e)
  then show ?thesis by (simp add: intent_run_def intent_try_def intent_fallback_def)
next
  case (Inr res)
  then show ?thesis
    using calculate_confidence_range [of d "domain res" "action res" "outcome res"]
    by (simp add: intent_run_def intent_try_def intent_body_confidence)
qed

lemma calculate_timeframe_confidence_range:
  "0 \<le> calculate_timeframe_confidence p s e \<and> calculate_timeframe_confidence p s e \<le> 1"
  by (simp add: calculate_timeframe_confidence_def Let_def)

lemma timeframe_body_confidence:
  "timeframe_body clk d = Inr res \<Longrightarrow>
     timeframe_confidence res =
       calculate_timeframe_confidence (extractedPhrases res) (startDate res) (endDate res)"
  by (auto simp: timeframe_body_def ebind_def Let_def split: sum.splits prod.splits)

lemma timeframe_run_range:
  "0 \<le> timeframe_confidence (timeframe_run clk d) \<and> timeframe_confidence (timeframe_run clk d) \<le> 1"
proof (cases "timeframe_body clk d")
  case (Inl e)
  then show ?thesis by (simp add: timeframe_run_def timeframe_try_def timeframe_fallback_def)
next
  case (Inr res)
  then show ?thesis
    using calculate_timeframe_confidence_range [of "extractedPhrases res" "startDate res" "endDate res"]
    by (simp add: timeframe_run_def timeframe_try_def timeframe_body_confidence)
qed

lemma confidence_score_range: "3 / 10 \<le> confidence_score l \<and> confidence_score l \<le> 9 / 10"
  by (simp add: confidence_score_def dict_get_def)

lemma sum_list_scores_nonneg: "0 \<le> sum_list (map (\<lambda>m. confidence_score (confidence m)) ms)"
proof (induction ms)
  case Nil
  then show ?case by simp
next
  case (Cons m ms)
  have "0 \<le> confidence_score (confidence m)"
    using confidence_score_range [of "confidence m"] by simp
  with Cons show ?case by simp
qed

lemma calculate_metrics_confidence_range:
  "0 \<le> calculate_metrics_confidence ms \<and> calculate_metrics_confidence ms \<le> 1"
  by (simp add: calculate_metrics_confidence_def sum_list_scores_nonneg)

lemma metrics_body_confidence:
  "metrics_body d = Inr res \<Longrightarrow> \<exists>ms. metrics_confidence res = calculate_metrics_confidence ms"
  by (auto simp: metrics_body_def ebind_def Let_def split: sum.splits)

lemma metrics_run_range:
  "0 \<le> metrics_confidence (metrics_run d) \<and> metrics_confidence (metrics_run d) \<le> 1"
proof (cases "metrics_body d")
  case (Inl e)
  then show ?thesis by (simp add: metrics_run_def metrics_try_def metrics_fallback_def)
next
  case (Inr res)
  then obtain ms where "metrics_confidence res = calculate_metrics_confidence ms"
    using metrics_body_confidence by blast
  with Inr show ?thesis
    using calculate_metrics_confidence_range [of ms]
    by (simp add: metrics_run_def metrics_try_def)
qed

lemma calculate_constraint_confidence_range:
  "0 \<le> calculate_constraint_confidence cs \<and> calculate_constraint_confidence cs \<le> 1"
proof -
  have "min (4 / 10) (of_nat (length cs) * (1 / 10)) \<le> (4 / 10 :: rat)"
    by (rule min.cobounded1)
  moreover have "(0::rat) \<le> min (4 / 10) (of_nat (length cs) * (1 / 10))"
    by simp
  ultimately show ?thesis
    unfolding calculate_constraint_confidence_def by (simp add: min_def)
qed

lemma constraints_body_confidence:
  "constraints_body d = Inr res \<Longrightarrow>
     constraints_confidence res = calculate_constraint_confidence (constraints res)"
  by (auto simp: constraints_body_def Let_def)

lemma constraints_run_range:
  "0 \<le> constraints_confidence (constraints_run d) \<and> constraints_confidence (constraints_run d) \<le> 1"
proof (cases "constraints_body d")
  case (Inl e)
  then show ?thesis by (simp add: constraints_run_def constraints_try_def constraints_fallback_def)
next
  case (Inr res)
  then show ?thesis
    using calculate_constraint_confidence_range [of "constraints res"]
    by (simp add: constraints_run_def constraints_try_def constraints_body_confidence)
qed

lemma mean4_range:
  fixes a b c d :: rat
  assumes "0 \<le> a \<and> a \<le> 1" "0 \<le> b \<and> b \<le> 1" "0 \<le> c \<and> c \<le> 1" "0 \<le> d \<and> d \<le> 1"
  shows "0 \<le> (a + b + c + d) / 4 \<and> (a + b + c + d) / 4 \<le> 1"
  using assms by simp

lemma process_fields:
  "report_intent (process_goal_description clk stamp d) = intent_run d"
  "report_timeframe (process_goal_description clk stamp d) = timeframe_run clk d"
  "report_metrics (process_goal_description clk stamp d) = metrics_run d"
  "report_constraints (process_goal_description clk stamp d) = constraints_run d"
  "overall_confidence (process_goal_description clk stamp d) =
     (intent_confidence (intent_run d) + timeframe_confidence (timeframe_run clk d)
      + metrics_confidence (metrics_run d) + constraints_confidence (constraints_run d)) / 4"
  "recommendations (process_goal_description clk stamp d) =
     generate_recommendations (intent_run d) (timeframe_run clk d) (metrics_run d) (constraints_run d)"
  by (simp_all add: process_goal_description_def process_body_def Let_def
        calculate_overall_confidence_def)

text \<open>
  Claim C1. For every description and every clock, the confidence of each of the four
  tools and the overall confidence of the report lie between 0 and 1; the sub-results of
  the report are the results of the four tools, so their confidences lie there too.
\<close>

theorem confidence_in_unit_interval:
  "0 \<le> intent_confidence (intent_run d) \<and> intent_confidence (intent_run d) \<le> 1 \<and>
   0 \<le> timeframe_confidence (timeframe_run clk d) \<and> timeframe_confidence (timeframe_run clk d) \<le> 1 \<and>
   0 \<le> metrics_confidence (metrics_run d) \<and> metrics_confidence (metrics_run d) \<le> 1 \<and>
   0 \<le> constraints_confidence (constraints_run d) \<and> constraints_confidence (constraints_run d) \<le> 1 \<and>
   0 \<le> overall_confidence (process_goal_description clk stamp d) \<and>
   overall_confidence (process_goal_description clk stamp d) \<le> 1 \<and>
   report_intent (process_goal_description clk stamp d) = intent_run d \<and>
   report_timeframe (process_goal_description clk stamp d) = timeframe_run clk d \<and>
   report_metrics (process_goal_description clk stamp d) = metrics_run d \<and>
   report_constraints (process_goal_description clk stamp d) = constraints_run d"
  using intent_run_range [of d] timeframe_run_range [of clk d] metrics_run_range [of d]
    constraints_run_range [of d]
    mean4_range [OF intent_run_range [of d] timeframe_run_range [of clk d] metrics_run_range [of d]
      constraints_run_range [of d]]
  by (simp add: process_fields)

subsection \<open>The constraint count\<close>

lemma constraints_body_Inr: "\<exists>res. constraints_body d = Inr res"
  by (simp add: constraints_body_def Let_def)

lemma constraints_body_count:
  "constraints_body d = Inr res \<Longrightarrow> total_count res = length (constraints res)"
  by (auto simp: constraints_body_def Let_def)

text \<open>
  Claim C7. For every description, \<open>total_count\<close> of the result of the constraint tool is
  the length of its \<open>constraints\<close>. The body of the tool raises on no string, so the result
  is the one of the normal path; the fallback of the \<^verbatim>\<open>except\<close> branch has the
  property as well, for every exception.
\<close>

theorem total_count_is_length:
  "total_count (constraints_run d) = length (constraints (constraints_run d)) \<and>
   (\<exists>res. constraints_body d = Inr res \<and> constraints_run d = res) \<and>
   constraints_try (Inl e) = constraints_fallback e \<and>
   total_count (constraints_fallback e) = length (constraints (constraints_fallback e))"
proof -
  obtain res where r: "constraints_body d = Inr res"
    using constraints_body_Inr by blast
  have "total_count res = length (constraints res)"
    using r by (rule constraints_body_count)
  with r show ?thesis
    by (simp add: constraints_run_def constraints_try_def constraints_fallback_def)
qed

subsection \<open>Bounded lists\<close>

lemma metrics_body_length: "metrics_body d = Inr res \<Longrightarrow> length (metrics res) \<le> 5"
  by (auto simp: metrics_body_def ebind_def Let_def split: sum.splits)

lemma metrics_run_length: "length (metrics (metrics_run d)) \<le> 5"
  by (cases "metrics_body d")
     (simp_all add: metrics_run_def metrics_try_def metrics_fallback_def metrics_body_length)

lemma extract_milestones_length: "length (extract_milestones d) \<le> 5"
  by (simp add: extract_milestones_def)

lemma timeframe_body_milestones:
  "timeframe_body clk d = Inr res \<Longrightarrow> milestones res = extract_milestones d"
  by (auto simp: timeframe_body_def ebind_def Let_def split: sum.splits prod.splits)

lemma timeframe_run_milestones: "length (milestones (timeframe_run clk d)) \<le> 5"
  by (cases "timeframe_body clk d")
     (simp_all add: timeframe_run_def timeframe_try_def timeframe_fallback_def
        timeframe_body_milestones extract_milestones_length)

lemma generate_recommendations_length: "length (generate_recommendations i t m c) \<le> 5"
  by (simp add: generate_recommendations_def)

text \<open>
  Claim C6. For every description, the tools return at most five metrics and at most
  five milestones, and the report has at most five recommendations, on the normal path
  and in the fallback report.
\<close>

theorem lists_at_most_five:
  "length (metrics (metrics_run d)) \<le> 5 \<and>
   length (milestones (timeframe_run clk d)) \<le> 5 \<and>
   length (recommendations (process_goal_description clk stamp d)) \<le> 5 \<and>
   length (recommendations (create_fallback_analysis stamp d e)) \<le> 5"
  using metrics_run_length [of d] timeframe_run_milestones [of clk d]
    generate_recommendations_length
  by (simp add: process_fields create_fallback_analysis_def)

subsection \<open>The intent tool does not fail\<close>

text \<open>
  Claim C3. \<open>intent_run\<close> returns a result for every string: its body raises nothing, and
  whatever exception \<open>e\<close> the body of the \<^verbatim>\<open>try\<close> could raise, the \<^verbatim>\<open>except\<close> branch
  returns the fixed fallback with domain \<^verbatim>\<open>projects\<close>, action \<^verbatim>\<open>achieve\<close>, outcome
  \<^verbatim>\<open>goal completion\<close>, urgency \<^verbatim>\<open>medium\<close> and confidence 0.3.
\<close>

theorem intent_never_fails:
  "(\<exists>res. intent_body d = Inr res \<and> intent_run d = res) \<and>
   intent_try (Inl e) = intent_fallback e \<and>
   domain (intent_fallback e) = ''projects'' \<and>
   action (intent_fallback e) = ''achieve'' \<and>
   outcome (intent_fallback e) = ''goal completion'' \<and>
   urgency (intent_fallback e) = ''medium'' \<and>
   intent_confidence (intent_fallback e) = 3 / 10"
  using intent_body_Inr [of d]
  by (auto simp: intent_run_def intent_try_def intent_fallback_def)

subsection \<open>Start date and end date\<close>

lemma parse_dates_both:
  "parse_dates clk d ps = Inr (s, e) \<Longrightarrow>
     (s \<noteq> None) = (e \<noteq> None) \<and> (\<forall>t. s = Some t \<longrightarrow> t = clk 1 \<or> t = clk 2)"
  by (auto simp: parse_dates_def ebind_def Let_def split: sum.splits option.splits)

lemma timeframe_body_dates:
  "timeframe_body clk d = Inr res \<Longrightarrow>
     parse_dates clk d (extract_time_phrases d) = Inr (startDate res, endDate res)"
  by (auto simp: timeframe_body_def ebind_def Let_def split: sum.splits prod.splits)

text \<open>
  Claim C10. When the timeframe tool returns on its normal path, the start date is set
  if and only if the end date is set, and a start date that is set is a reading of the
  clock. (On the fallback path both dates are unset, so the equivalence holds for every
  result.)
\<close>

theorem start_iff_end:
  "(timeframe_body clk d = Inr res \<longrightarrow>
      timeframe_run clk d = res \<and>
      (startDate res \<noteq> None) = (endDate res \<noteq> None) \<and>
      (\<forall>t. startDate res = Some t \<longrightarrow> t = clk 1 \<or> t = clk 2)) \<and>
   (startDate (timeframe_run clk d) \<noteq> None) = (endDate (timeframe_run clk d) \<noteq> None)"
proof (cases "timeframe_body clk d")
  case (Inl e)
  then show ?thesis by (simp add: timeframe_run_def timeframe_try_def timeframe_fallback_def)
next
  case (Inr r)
  have "(startDate r \<noteq> None) = (endDate r \<noteq> None) \<and>
        (\<forall>t. startDate r = Some t \<longrightarrow> t = clk 1 \<or> t = clk 2)"
    using timeframe_body_dates [OF Inr] by (rule parse_dates_both)
  with Inr show ?thesis by (auto simp: timeframe_run_def timeframe_try_def)
qed

lemma timeframe_today:
  "timeframe_body clock_june_15 ''today'' =
     Inr \<lparr>startDate = Some (clock_june_15 2), endDate = Some (clock_june_15 1), duration = [],
           milestones = [], flexibility = ''flexible'', extractedPhrases = [''today''],
           timeframe_confidence = 9 / 10, timeframe_error = None\<rparr>"
  by code_simp

theorem start_iff_end_witness:
  "timeframe_body clock_june_15 ''today'' =
     Inr \<lparr>startDate = Some (clock_june_15 2), endDate = Some (clock_june_15 1), duration = [],
           milestones = [], flexibility = ''flexible'', extractedPhrases = [''today''],
           timeframe_confidence = 9 / 10, timeframe_error = None\<rparr> \<and>
   startDate (timeframe_run clock_june_15 ''today'') = Some (clock_june_15 2) \<and>
   endDate (timeframe_run clock_june_15 ''today'') = Some (clock_june_15 1)"
  using start_iff_end [of clock_june_15 "''today''", THEN conjunct1, rule_format, OF timeframe_today]
    timeframe_today
  by simp

subsection \<open>The domain\<close>










subsection \<open>The duration\<close>



















subsection \<open>Detailed and vague descriptions\<close>

lemma clamp01_mono: "x \<le> y \<Longrightarrow> clamp01 x \<le> clamp01 y"
  by (simp add: clamp01_def max_def min_def)

lemma calculate_confidence_long:
  "10 \<le> length (split d) \<Longrightarrow> 4 / 10 \<le> calculate_confidence d a b c"
proof -
  assume wc: "10 \<le> length (split d)"
  have "clamp01 (4 / 10) \<le> calculate_confidence d a b c"
    unfolding calculate_confidence_def Let_def
    using wc by (intro clamp01_mono) auto
  then show ?thesis by (simp add: clamp01_def)
qed

lemma vague_confidence: "intent_confidence (intent_run ''do stuff'') = 0"
  by code_simp

text \<open>
  Claim C8. A description with an explicit numeric metric, a concrete date and at least
  ten words has an intent confidence strictly greater than that of \<^verbatim>\<open>do stuff\<close>
  (which is 0): ten words alone give at least 0.4.
\<close>

theorem detailed_beats_vague:
  "has_explicit_metric d \<Longrightarrow> has_literal_date d \<Longrightarrow> 10 \<le> length (split d) \<Longrightarrow>
     intent_confidence (intent_run ''do stuff'') < intent_confidence (intent_run d)"
proof -
  assume wc: "10 \<le> length (split d)"
  have "intent_confidence (intent_run d) =
          calculate_confidence d (domain (intent_run d)) (action (intent_run d)) (outcome (intent_run d))"
    by (simp add: intent_run_def intent_try_def intent_body_def Let_def)
  then have "4 / 10 \<le> intent_confidence (intent_run d)"
    using calculate_confidence_long [OF wc] by simp
  then show ?thesis by (simp add: vague_confidence)
qed

lemma detailed_example:
  "has_explicit_metric ''I will run 5 miles every day until 12/31/2025 to get fit'' \<and>
   has_literal_date ''I will run 5 miles every day until 12/31/2025 to get fit'' \<and>
   10 \<le> length (split ''I will run 5 miles every day until 12/31/2025 to get fit'')"
  by code_simp

theorem detailed_beats_vague_witness:
  "has_explicit_metric ''I will run 5 miles every day until 12/31/2025 to get fit'' \<and>
   has_literal_date ''I will run 5 miles every day until 12/31/2025 to get fit'' \<and>
   10 \<le> length (split ''I will run 5 miles every day until 12/31/2025 to get fit'') \<and>
   intent_confidence (intent_run ''do stuff'')
     < intent_confidence (intent_run ''I will run 5 miles every day until 12/31/2025 to get fit'')"
  using detailed_beats_vague [of "''I will run 5 miles every day until 12/31/2025 to get fit''"]
    detailed_example
  by blast

subsection \<open>The fallback report\<close>



subsection \<open>What the results depend on\<close>








end
